theory Spec2Isabelle
  imports Complex_Main "HOL-Library.Log_Nat"
begin

section \<open>Data model (order.model.ts, user.model.ts)\<close>

text \<open>
  A JavaScript \<open>number\<close> is an IEEE-754 binary64 value.  A finite value is kept as the
  rational it denotes (\<open>Fin 0\<close> is \<open>+0\<close>); the remaining values are named.
\<close>

datatype number = Fin rat | NegZero | PosInf | NegInf | NaN

text \<open>
  A string is a list of characters, one for each code unit, so that \<open>length\<close> is the
  \<open>.length\<close> of the source.  \<open>OrderStatus\<close> is a union of eight string literals;
  \<open>status_str\<close> gives the string that a template literal prints for each of them.
\<close>

datatype OrderStatus =
  draft | pending | confirmed | processing | shipped | delivered | cancelled | refunded

fun status_str :: "OrderStatus \<Rightarrow> string" where
  "status_str draft = ''draft''"
| "status_str pending = ''pending''"
| "status_str confirmed = ''confirmed''"
| "status_str processing = ''processing''"
| "status_str shipped = ''shipped''"
| "status_str delivered = ''delivered''"
| "status_str cancelled = ''cancelled''"
| "status_str refunded = ''refunded''"

record Address =
  street :: string
  city :: string
  state :: string
  postalCode :: string
  country :: string

text \<open>
  Field names are those of the interfaces; where two interfaces share a field name, or a
  name is taken by HOL or Isar, the field carries the interface as a prefix (\<open>item_total\<close> is
  \<open>OrderItem.total\<close>, \<open>order_id\<close> is \<open>Order.id\<close>).  An optional field is an option.
\<close>

record OrderItem =
  productId :: string
  productName :: "string option"
  quantity :: number
  unitPrice :: number
  discount :: number
  item_total :: "number option"

record OrderTotals =
  subtotal :: number
  tax :: number
  shipping :: number
  total :: number

record Order =
  order_id :: string
  order_userId :: string
  order_items :: "OrderItem list"
  order_subtotal :: number
  order_tax :: number
  order_shipping :: number
  order_total :: number
  status :: OrderStatus
  order_shippingAddress :: Address
  order_billingAddress :: "Address option"
  order_notes :: "string option"
  trackingNumber :: "string option"
  createdAt :: int
  updatedAt :: int

record CreateOrderDTO =
  userId :: string
  items :: "OrderItem list"
  shippingAddress :: Address
  billingAddress :: "Address option"
  dto_notes :: "string option"

record UpdateOrderDTO =
  upd_items :: "OrderItem list option"
  upd_shippingAddress :: "Address option"
  upd_billingAddress :: "Address option"
  upd_notes :: "string option"

section \<open>Arithmetic on numbers (ECMAScript, IEEE-754 binary64)\<close>

text \<open>
  Every arithmetic operator computes the exact result and rounds it to the nearest
  binary64 value, ties to the even significand.  \<open>pow2 k\<close> is \<open>2\<close> to the power \<open>k\<close>,
  \<open>ilog2 a\<close> the exponent of the binade of a positive \<open>a\<close> (the integer part of its binary
  logarithm, from the bit lengths of numerator and denominator).  \<open>to_double\<close> rounds:
  the quantum is \<open>2\<close> to the power \<open>e - 52\<close> for the exponent \<open>e\<close> of the value, and never
  below the exponent \<open>- 1022\<close> (subnormal numbers); a result of magnitude \<open>2 ^ 1024\<close>
  or more is an infinity, and a non-zero value that rounds to zero keeps its sign.
\<close>

definition pow2 :: "int \<Rightarrow> rat" where
  "pow2 k = (if 0 \<le> k then 2 ^ nat k else 1 / 2 ^ nat (- k))"

definition ilog2 :: "rat \<Rightarrow> int" where
  "ilog2 a =
     (case quotient_of a of
        (p, q) \<Rightarrow> (let d = bitlen p - bitlen q in if pow2 d \<le> a then d else d - 1))"

definition round_half_even :: "rat \<Rightarrow> int" where
  "round_half_even x =
     (let n = \<lfloor>x\<rfloor>; f = x - of_int n
      in if f < 1 / 2 then n else if 1 / 2 < f then n + 1 else if even n then n else n + 1)"

definition to_double :: "rat \<Rightarrow> number" where
  "to_double r =
     (if r = 0 then Fin 0
      else
        let a = \<bar>r\<bar>;
            e = max (ilog2 a) (- 1022);
            q = pow2 (e - 52);
            v = of_int (round_half_even (a / q)) * q
        in if pow2 1024 \<le> v then (if r < 0 then NegInf else PosInf)
           else if v = 0 then (if r < 0 then NegZero else Fin 0)
           else Fin (if r < 0 then - v else v))"

fun is_zero :: "number \<Rightarrow> bool" where
  "is_zero (Fin a) = (a = 0)"
| "is_zero NegZero = True"
| "is_zero _ = False"

fun is_inf :: "number \<Rightarrow> bool" where
  "is_inf PosInf = True"
| "is_inf NegInf = True"
| "is_inf _ = False"

fun sign_bit :: "number \<Rightarrow> bool" where
  "sign_bit (Fin a) = (a < 0)"
| "sign_bit NegZero = True"
| "sign_bit NegInf = True"
| "sign_bit _ = False"

text \<open>The rational value of a finite number; it is applied to finite numbers only.\<close>

fun rat_of :: "number \<Rightarrow> rat" where
  "rat_of (Fin a) = a"
| "rat_of _ = 0"

definition signed_zero :: "bool \<Rightarrow> number" where
  "signed_zero neg = (if neg then NegZero else Fin 0)"

definition signed_inf :: "bool \<Rightarrow> number" where
  "signed_inf neg = (if neg then NegInf else PosInf)"

text \<open>Unary minus, \<open>+\<close>, \<open>-\<close>, \<open>*\<close> and \<open>/\<close> (Number::unaryMinus, add, subtract, multiply, divide).\<close>

fun js_neg :: "number \<Rightarrow> number" where
  "js_neg NaN = NaN"
| "js_neg PosInf = NegInf"
| "js_neg NegInf = PosInf"
| "js_neg NegZero = Fin 0"
| "js_neg (Fin a) = (if a = 0 then NegZero else Fin (- a))"

definition js_add :: "number \<Rightarrow> number \<Rightarrow> number" where
  "js_add x y =
     (if x = NaN \<or> y = NaN then NaN
      else if is_inf x \<and> is_inf y \<and> x \<noteq> y then NaN
      else if is_inf x then x
      else if is_inf y then y
      else if x = NegZero \<and> y = NegZero then NegZero
      else to_double (rat_of x + rat_of y))"

definition js_sub :: "number \<Rightarrow> number \<Rightarrow> number" where
  "js_sub x y = js_add x (js_neg y)"

definition js_mul :: "number \<Rightarrow> number \<Rightarrow> number" where
  "js_mul x y =
     (if x = NaN \<or> y = NaN then NaN
      else if is_inf x \<or> is_inf y then
        (if is_zero x \<or> is_zero y then NaN else signed_inf (sign_bit x \<noteq> sign_bit y))
      else if is_zero x \<or> is_zero y then signed_zero (sign_bit x \<noteq> sign_bit y)
      else to_double (rat_of x * rat_of y))"

definition js_div :: "number \<Rightarrow> number \<Rightarrow> number" where
  "js_div x y =
     (if x = NaN \<or> y = NaN then NaN
      else if is_inf x then
        (if is_inf y then NaN else signed_inf (sign_bit x \<noteq> sign_bit y))
      else if is_inf y then signed_zero (sign_bit x \<noteq> sign_bit y)
      else if is_zero y then
        (if is_zero x then NaN else signed_inf (sign_bit x \<noteq> sign_bit y))
      else if is_zero x then signed_zero (sign_bit x \<noteq> sign_bit y)
      else to_double (rat_of x / rat_of y))"

text \<open>
  \<open>Math.round\<close>: the nearest integer, a tie going towards \<open>+\<infinity>\<close>; a value in
  \<open>[-0.5, 0)\<close> gives \<open>-0\<close>.
\<close>

fun Math_round :: "number \<Rightarrow> number" where
  "Math_round (Fin a) =
     (let n = \<lfloor>a + 1 / 2\<rfloor> in if n = 0 then signed_zero (a < 0) else Fin (of_int n))"
| "Math_round x = x"

text \<open>
  The comparison of two numbers is undefined (\<open>None\<close>) when one is \<open>NaN\<close>; \<open><\<close>, \<open><=\<close>
  and \<open>>=\<close> are false then.
\<close>

fun IsLessThan :: "number \<Rightarrow> number \<Rightarrow> bool option" where
  "IsLessThan NaN _ = None"
| "IsLessThan _ NaN = None"
| "IsLessThan PosInf _ = Some False"
| "IsLessThan _ PosInf = Some True"
| "IsLessThan _ NegInf = Some False"
| "IsLessThan NegInf _ = Some True"
| "IsLessThan x y = Some (rat_of x < rat_of y)"

definition js_lt :: "number \<Rightarrow> number \<Rightarrow> bool" where
  "js_lt x y = (case IsLessThan x y of None \<Rightarrow> False | Some r \<Rightarrow> r)"

definition js_le :: "number \<Rightarrow> number \<Rightarrow> bool" where
  "js_le x y = (case IsLessThan y x of None \<Rightarrow> False | Some r \<Rightarrow> \<not> r)"

definition js_ge :: "number \<Rightarrow> number \<Rightarrow> bool" where
  "js_ge x y = (case IsLessThan x y of None \<Rightarrow> False | Some r \<Rightarrow> \<not> r)"

section \<open>Constants of the order model\<close>

text \<open>A decimal literal denotes the binary64 value nearest to it.\<close>

definition TAX_RATE :: number where
  "TAX_RATE = to_double (8 / 100)"

definition FREE_SHIPPING_THRESHOLD :: number where
  "FREE_SHIPPING_THRESHOLD = Fin 100"

definition STANDARD_SHIPPING_COST :: number where
  "STANDARD_SHIPPING_COST = to_double (999 / 100)"

text \<open>\<open>ORDER_STATUS_TRANSITIONS\<close>: a record keyed by every status, each entry an array.\<close>

fun ORDER_STATUS_TRANSITIONS :: "OrderStatus \<Rightarrow> OrderStatus list" where
  "ORDER_STATUS_TRANSITIONS draft = [pending, cancelled]"
| "ORDER_STATUS_TRANSITIONS pending = [confirmed, cancelled]"
| "ORDER_STATUS_TRANSITIONS confirmed = [processing, cancelled]"
| "ORDER_STATUS_TRANSITIONS processing = [shipped, cancelled]"
| "ORDER_STATUS_TRANSITIONS shipped = [delivered]"
| "ORDER_STATUS_TRANSITIONS delivered = [refunded]"
| "ORDER_STATUS_TRANSITIONS cancelled = []"
| "ORDER_STATUS_TRANSITIONS refunded = []"

section \<open>The order service (order.service.ts)\<close>

text \<open>
  The service holds four signals.  A method either returns \<open>throwError(() => new Error(msg))\<close>
  or an observable wrapping one HTTP request; the model returns the signals as the call
  leaves them, together with \<open>Inl\<close> of the error or \<open>Inr\<close> of the request.  What the
  \<open>tap\<close> callback does to the signals when the response arrives is a function of its own
  (suffix \<open>_next\<close>).
\<close>

record OrderService =
  ordersSignal :: "Order list"
  currentOrderSignal :: "Order option"
  loadingSignal :: bool
  errorSignal :: "string option"

datatype Error = Error string

datatype HttpBody =
    StatusBody OrderStatus
  | UpdateBody UpdateOrderDTO
  | OrderData CreateOrderDTO OrderTotals

datatype HttpRequest = POST string HttpBody | PATCH string HttpBody

definition apiUrl :: string where
  "apiUrl = ''/api/orders''"

definition array_includes :: "'a list \<Rightarrow> 'a \<Rightarrow> bool" where
  "array_includes xs x = List.member xs x"

text \<open>
  \<open>calculateOrderTotals\<close>: \<open>reduce\<close> is a left fold from \<open>0\<close>; the operators associate
  to the left.
\<close>

definition calculateOrderTotals :: "OrderItem list \<Rightarrow> OrderTotals" where
  "calculateOrderTotals its =
     (let subtotal' =
            foldl (\<lambda>sum item.
                     let itemTotal =
                           js_mul (js_mul (unitPrice item) (quantity item))
                                  (js_sub (Fin 1) (js_div (discount item) (Fin 100)))
                     in js_add sum itemTotal)
                  (Fin 0) its;
          tax' = js_div (Math_round (js_mul (js_mul subtotal' TAX_RATE) (Fin 100))) (Fin 100);
          shipping' = (if js_ge subtotal' FREE_SHIPPING_THRESHOLD then Fin 0
                       else STANDARD_SHIPPING_COST);
          total' = js_div (Math_round (js_mul (js_add (js_add subtotal' tax') shipping') (Fin 100)))
                          (Fin 100)
      in \<lparr>subtotal = subtotal', tax = tax', shipping = shipping', total = total'\<rparr>)"

text \<open>
  \<open>isValidAddress\<close>: each field must be truthy (a non-empty string) and long enough.  The
  parameter has type \<open>Address\<close>, which excludes the \<open>null\<close> that the first line guards
  against, as \<open>OrderItem[]\<close> excludes a missing item list in \<open>createOrder\<close>.
\<close>

definition isValidAddress :: "Address \<Rightarrow> bool" where
  "isValidAddress address =
     (street address \<noteq> [] \<and> 5 \<le> length (street address) \<and>
      city address \<noteq> [] \<and> 2 \<le> length (city address) \<and>
      state address \<noteq> [] \<and> 2 \<le> length (state address) \<and>
      postalCode address \<noteq> [] \<and> 5 \<le> length (postalCode address) \<and>
      country address \<noteq> [] \<and> 2 \<le> length (country address))"

text \<open>The \<open>for\<close> loop of \<open>createOrder\<close>: the first item that fails a check decides the error.\<close>

fun validate_items :: "OrderItem list \<Rightarrow> Error option" where
  "validate_items [] = None"
| "validate_items (item # rest) =
     (if js_le (quantity item) (Fin 0) then Some (Error ''Item quantity must be positive'')
      else if js_lt (unitPrice item) (Fin 0) then Some (Error ''Item price cannot be negative'')
      else validate_items rest)"

definition createOrder ::
  "OrderService \<Rightarrow> CreateOrderDTO \<Rightarrow> OrderService \<times> (Error + HttpRequest)" where
  "createOrder svc dto =
     (if length (items dto) = 0 then (svc, Inl (Error ''Order must contain at least one item''))
      else
        case validate_items (items dto) of
          Some e \<Rightarrow> (svc, Inl e)
        | None \<Rightarrow>
            if \<not> isValidAddress (shippingAddress dto)
            then (svc, Inl (Error ''Invalid shipping address''))
            else
              (svc\<lparr>loadingSignal := True, errorSignal := None\<rparr>,
               Inr (POST apiUrl (OrderData dto (calculateOrderTotals (items dto))))))"

definition createOrder_next :: "OrderService \<Rightarrow> Order \<Rightarrow> OrderService" where
  "createOrder_next svc order =
     svc\<lparr>ordersSignal := ordersSignal svc @ [order], currentOrderSignal := Some order,
         loadingSignal := False\<rparr>"

text \<open>
  The check of lines 120--125 of \<open>updateOrderStatus\<close>, on its own: \<open>canTransition\<close> is the
  array lookup, \<open>InvalidTransition\<close> the error built from the two statuses, and
  \<open>transition\<close> the outcome of the check.
\<close>

definition canTransition :: "OrderStatus \<Rightarrow> OrderStatus \<Rightarrow> bool" where
  "canTransition current target = array_includes (ORDER_STATUS_TRANSITIONS current) target"

definition InvalidTransition :: "OrderStatus \<Rightarrow> OrderStatus \<Rightarrow> Error" where
  "InvalidTransition current target =
     Error (''Cannot transition from '' @ status_str current @ '' to '' @ status_str target)"

definition transition :: "OrderStatus \<Rightarrow> OrderStatus \<Rightarrow> Error + OrderStatus" where
  "transition current target =
     (if \<not> canTransition current target then Inl (InvalidTransition current target)
      else Inr target)"

definition updateOrderStatus ::
  "OrderService \<Rightarrow> string \<Rightarrow> OrderStatus \<Rightarrow> OrderService \<times> (Error + HttpRequest)" where
  "updateOrderStatus svc orderId newStatus =
     (case find (\<lambda>x. order_id x = orderId) (ordersSignal svc) of
        Some currentOrder \<Rightarrow>
          (let allowedTransitions = ORDER_STATUS_TRANSITIONS (status currentOrder) in
           if \<not> array_includes allowedTransitions newStatus
           then (svc, Inl (Error (''Cannot transition from '' @ status_str (status currentOrder)
                                   @ '' to '' @ status_str newStatus)))
           else (svc, Inr (PATCH (apiUrl @ ''/'' @ orderId @ ''/status'') (StatusBody newStatus))))
      | None \<Rightarrow>
          (svc, Inr (PATCH (apiUrl @ ''/'' @ orderId @ ''/status'') (StatusBody newStatus))))"

definition replace_order :: "OrderService \<Rightarrow> string \<Rightarrow> Order \<Rightarrow> OrderService" where
  "replace_order svc orderId order =
     svc\<lparr>ordersSignal := map (\<lambda>x. if order_id x = orderId then order else x) (ordersSignal svc),
         currentOrderSignal :=
           (case currentOrderSignal svc of
              Some c \<Rightarrow> if order_id c = orderId then Some order else Some c
            | None \<Rightarrow> None)\<rparr>"

definition updateOrderStatus_next :: "OrderService \<Rightarrow> string \<Rightarrow> Order \<Rightarrow> OrderService" where
  "updateOrderStatus_next svc orderId order = replace_order svc orderId order"

definition updateOrder ::
  "OrderService \<Rightarrow> string \<Rightarrow> UpdateOrderDTO \<Rightarrow> OrderService \<times> (Error + HttpRequest)" where
  "updateOrder svc orderId dto =
     (case find (\<lambda>x. order_id x = orderId) (ordersSignal svc) of
        Some currentOrder \<Rightarrow>
          if status currentOrder \<noteq> draft
          then (svc, Inl (Error ''Can only update orders in draft status''))
          else (svc, Inr (PATCH (apiUrl @ ''/'' @ orderId) (UpdateBody dto)))
      | None \<Rightarrow> (svc, Inr (PATCH (apiUrl @ ''/'' @ orderId) (UpdateBody dto))))"

definition updateOrder_next :: "OrderService \<Rightarrow> string \<Rightarrow> Order \<Rightarrow> OrderService" where
  "updateOrder_next svc orderId order = replace_order svc orderId order"

definition cancelOrder ::
  "OrderService \<Rightarrow> string \<Rightarrow> OrderService \<times> (Error + HttpRequest)" where
  "cancelOrder svc orderId =
     (case find (\<lambda>x. order_id x = orderId) (ordersSignal svc) of
        Some order \<Rightarrow>
          if status order = shipped \<or> status order = delivered
          then (svc, Inl (Error (''Cannot cancel order in '' @ status_str (status order)
                                   @ '' status'')))
          else updateOrderStatus svc orderId cancelled
      | None \<Rightarrow> updateOrderStatus svc orderId cancelled)"

section \<open>The transition table of the specification\<close>

text \<open>
  The table as section 3 of the specification prints it, a set of allowed next statuses
  for each status; the array of the source is compared with it below.
\<close>

fun spec_allowed_next :: "OrderStatus \<Rightarrow> OrderStatus set" where
  "spec_allowed_next draft = {pending, cancelled}"
| "spec_allowed_next pending = {confirmed, cancelled}"
| "spec_allowed_next confirmed = {processing, cancelled}"
| "spec_allowed_next processing = {shipped, cancelled}"
| "spec_allowed_next shipped = {delivered}"
| "spec_allowed_next delivered = {refunded}"
| "spec_allowed_next cancelled = {}"
| "spec_allowed_next refunded = {}"

text \<open>
  A path is a list of statuses visited in order; it is allowed when every step from one
  status to the next passes the check of \<open>updateOrderStatus\<close>.
\<close>

fun allowed_path :: "OrderStatus list \<Rightarrow> bool" where
  "allowed_path [] = True"
| "allowed_path [s] = True"
| "allowed_path (s # t # rest) = (canTransition s t \<and> allowed_path (t # rest))"

section \<open>The totals of the specification\<close>












text \<open>Sample data used by the instances below.\<close>

definition sample_address :: Address where
  "sample_address =
     \<lparr>street = ''123 Main St'', city = ''Boston'', state = ''MA'',
      postalCode = ''02101'', country = ''US''\<rparr>"

definition sample_order :: "string \<Rightarrow> OrderStatus \<Rightarrow> Order" where
  "sample_order oid s =
     \<lparr>order_id = oid, order_userId = ''user-123'', order_items = [],
      order_subtotal = Fin 95, order_tax = to_double (760 / 100),
      order_shipping = to_double (999 / 100), order_total = to_double (11259 / 100),
      status = s, order_shippingAddress = sample_address,
      order_billingAddress = None, order_notes = None, trackingNumber = None,
      createdAt = 0, updatedAt = 0\<rparr>"

definition sample_item :: "string \<Rightarrow> rat \<Rightarrow> rat \<Rightarrow> rat \<Rightarrow> OrderItem" where
  "sample_item pid q p d =
     \<lparr>productId = pid, productName = None, quantity = Fin q, unitPrice = Fin p,
      discount = Fin d, item_total = None\<rparr>"

definition sample_dto :: "OrderItem list \<Rightarrow> Address \<Rightarrow> CreateOrderDTO" where
  "sample_dto its addr =
     \<lparr>userId = ''user-123'', items = its, shippingAddress = addr, billingAddress = None,
      dto_notes = None\<rparr>"

definition service_with :: "Order list \<Rightarrow> OrderService" where
  "service_with os =
     \<lparr>ordersSignal = os, currentOrderSignal = None, loadingSignal = False, errorSignal = None\<rparr>"

section \<open>Properties of the arithmetic\<close>

lemma pow2_powi: "pow2 k = 2 powi k"
  by (simp add: pow2_def power_int_def power_one_over inverse_eq_divide)

lemma pow2_pos: "0 < pow2 k"
  by (simp add: pow2_powi)

lemma pow2_add: "pow2 (a + b) = pow2 a * pow2 b"
  by (simp add: pow2_powi power_int_add)


lemma pow2_mono: "a \<le> b \<Longrightarrow> pow2 a \<le> pow2 b"
  by (simp add: pow2_powi power_int_increasing)

lemma pow2_nat: "0 \<le> k \<Longrightarrow> pow2 k = 2 ^ nat k"
  by (simp add: pow2_def)

lemma bitlen_rat_bounds:
  assumes "0 < p"
  shows "pow2 (bitlen p - 1) \<le> of_int p" and "(of_int p :: rat) < pow2 (bitlen p)"
proof -
  from assms have b1: "1 \<le> bitlen p"
    by (auto simp: bitlen_alt_def)
  from bitlen_bounds [OF assms] have lo: "2 ^ nat (bitlen p - 1) \<le> p" and hi: "p < 2 ^ nat (bitlen p)"
    by simp_all
  from lo have "(of_int (2 ^ nat (bitlen p - 1)) :: rat) \<le> of_int p"
    by (simp only: of_int_le_iff)
  with b1 show "pow2 (bitlen p - 1) \<le> of_int p"
    by (simp add: pow2_nat)
  from hi have "(of_int p :: rat) < of_int (2 ^ nat (bitlen p))"
    by (simp only: of_int_less_iff)
  with b1 show "(of_int p :: rat) < pow2 (bitlen p)"
    by (simp add: pow2_nat)
qed

lemma ilog2_bounds:
  assumes "0 < a"
  shows "pow2 (ilog2 a) \<le> a \<and> a < pow2 (ilog2 a + 1)"
proof -
  obtain p q where pq: "quotient_of a = (p, q)"
    by (cases "quotient_of a")
  then have q: "0 < q" and a: "a = of_int p / of_int q"
    by (auto dest: quotient_of_denom_pos quotient_of_div)
  with assms have p: "0 < p"
    by (simp add: zero_less_divide_iff)
  define d where "d = bitlen p - bitlen q"
  note bp = bitlen_rat_bounds [OF p] and bq = bitlen_rat_bounds [OF q]
  have qpos: "(0::rat) < of_int q" using q by simp
  have up: "a < pow2 (d + 1)"
  proof -
    have "of_int p < pow2 (bitlen p)" by (rule bp)
    also have "\<dots> = pow2 (d + 1) * pow2 (bitlen q - 1)"
      by (simp add: d_def flip: pow2_add)
    also have "\<dots> \<le> pow2 (d + 1) * of_int q"
      using bq(1) pow2_pos [of "d + 1"] by (simp add: mult_left_mono)
    finally show ?thesis
      using qpos by (simp add: a pos_divide_less_eq)
  qed
  have low: "pow2 (d - 1) \<le> a"
  proof -
    have "pow2 (d - 1) * of_int q \<le> pow2 (d - 1) * pow2 (bitlen q)"
      using bq(2) pow2_pos [of "d - 1"] by (simp add: mult_left_mono)
    also have "\<dots> = pow2 (bitlen p - 1)"
      by (simp add: d_def flip: pow2_add)
    also have "\<dots> \<le> of_int p" by (rule bp)
    finally show ?thesis
      using qpos by (simp add: a pos_le_divide_eq)
  qed
  show ?thesis
  proof (cases "pow2 d \<le> a")
    case True
    then have "ilog2 a = d"
      by (simp add: ilog2_def pq d_def)
    with True up show ?thesis by simp
  next
    case False
    then have "ilog2 a = d - 1"
      by (simp add: ilog2_def pq d_def)
    with False low show ?thesis by simp
  qed
qed

lemma ilog2_unique:
  assumes "pow2 e \<le> a" and "a < pow2 (e + 1)"
  shows "ilog2 a = e"
proof -
  from assms(1) pow2_pos [of e] have pos: "0 < a" by simp
  from ilog2_bounds [OF pos] have lo: "pow2 (ilog2 a) \<le> a" and hi: "a < pow2 (ilog2 a + 1)"
    by simp_all
  have "\<not> e < ilog2 a"
  proof
    assume "e < ilog2 a"
    then have "pow2 (e + 1) \<le> pow2 (ilog2 a)" by (simp add: pow2_mono)
    with lo assms(2) show False by simp
  qed
  moreover have "\<not> ilog2 a < e"
  proof
    assume "ilog2 a < e"
    then have "pow2 (ilog2 a + 1) \<le> pow2 e" by (simp add: pow2_mono)
    with hi assms(1) show False by simp
  qed
  ultimately show ?thesis by simp
qed


lemma round_half_even_near:
  assumes "\<bar>x - of_int m\<bar> < 1 / 2"
  shows "round_half_even x = m"
proof (cases "of_int m \<le> x")
  case True
  with assms have "\<lfloor>x\<rfloor> = m"
    by (intro floor_unique) (simp_all add: abs_less_iff)
  with assms True show ?thesis
    by (simp add: round_half_even_def Let_def abs_less_iff)
next
  case False
  with assms have "\<lfloor>x\<rfloor> = m - 1"
    by (intro floor_unique) (simp_all add: abs_less_iff)
  with assms False show ?thesis
    by (simp add: round_half_even_def Let_def abs_less_iff)
qed

lemma to_double_pos:
  assumes "pow2 e \<le> a" and "a < pow2 (e + 1)" and "- 1022 \<le> e"
    and "\<bar>a / pow2 (e - 52) - of_int m\<bar> < 1 / 2"
    and "0 < m" and "of_int m * pow2 (e - 52) < pow2 1024"
  shows "to_double a = Fin (of_int m * pow2 (e - 52))"
proof -
  from assms(1) pow2_pos [of e] have pos: "0 < a" by simp
  have e: "max (ilog2 a) (- 1022) = e"
    using ilog2_unique [OF assms(1,2)] assms(3) by simp
  from assms(5) pow2_pos [of "e - 52"] have v: "0 < of_int m * pow2 (e - 52)"
    by simp
  from pos have "\<bar>a\<bar> = a" by simp
  with pos e v assms(6) round_half_even_near [OF assms(4)] show ?thesis
    by (simp add: to_double_def Let_def)
qed

text \<open>Single operations at the values that the scenarios pass through.\<close>

lemma TAX_RATE_value: "TAX_RATE = Fin (5764607523034235 / 72057594037927936)"
  using to_double_pos [of "- 4" "2 / 25" 5764607523034235]
  by (simp add: TAX_RATE_def pow2_def)

lemma STANDARD_SHIPPING_COST_value: "STANDARD_SHIPPING_COST =
      Fin (5623870034678907 / 562949953421312)"
  using to_double_pos [of 3 "999 / 100" 5623870034678907]
  by (simp add: STANDARD_SHIPPING_COST_def pow2_def)

lemma lit_7_60: "to_double (38 / 5) = Fin (4278419646001971 / 562949953421312)"
  using to_double_pos [of 2 "38 / 5" 8556839292003942]
  by (simp add: pow2_def)

lemma lit_9_99: "to_double (999 / 100) = Fin (5623870034678907 / 562949953421312)"
  using to_double_pos [of 3 "999 / 100" 5623870034678907]
  by (simp add: pow2_def)

lemma lit_112_59: "to_double (11259 / 100) = Fin (3961408453481595 / 35184372088832)"
  using to_double_pos [of 6 "11259 / 100" 7922816906963190]
  by (simp add: pow2_def)

lemma mul_25_2: "js_mul (Fin 25) (Fin 2) = Fin 50"
  using to_double_pos [of 5 50 7036874417766400]
  by (simp add: js_mul_def pow2_def)

lemma mul_50_1: "js_mul (Fin 50) (Fin 1) = Fin 50"
  using to_double_pos [of 5 50 7036874417766400]
  by (simp add: js_mul_def pow2_def)

lemma div_10_100: "js_div (Fin 10) (Fin 100) = Fin (3602879701896397 / 36028797018963968)"
  using to_double_pos [of "- 4" "1 / 10" 7205759403792794]
  by (simp add: js_div_def pow2_def)

lemma sub_1_tenth: "js_sub (Fin 1) (Fin (3602879701896397 / 36028797018963968)) =
      Fin (8106479329266893 / 9007199254740992)"
  using to_double_pos [of "- 1" "32425917317067571 / 36028797018963968" 8106479329266893]
  by (simp add: js_sub_def js_add_def pow2_def)

lemma mul_50_ninetenths: "js_mul (Fin 50) (Fin (8106479329266893 / 9007199254740992)) = Fin 45"
  using to_double_pos [of 5 "202661983231672325 / 4503599627370496" 6333186975989760]
  by (simp add: js_mul_def pow2_def)

lemma add_50_45: "js_add (Fin 50) (Fin 45) = Fin 95"
  using to_double_pos [of 6 95 6685030696878080]
  by (simp add: js_add_def pow2_def)

lemma mul_95_tax: "js_mul (Fin 95) (Fin (5764607523034235 / 72057594037927936)) =
      Fin (8556839292003943 / 1125899906842624)"
  using to_double_pos [of 2 "547637714688252325 / 72057594037927936" 8556839292003943]
  by (simp add: js_mul_def pow2_def)

lemma mul_tax_100: "js_mul (Fin (8556839292003943 / 1125899906842624)) (Fin 100) = Fin 760"
  using to_double_pos [of 9 "213920982300098575 / 281474976710656" 6685030696878080]
  by (simp add: js_mul_def pow2_def)

lemma div_760_100: "js_div (Fin 760) (Fin 100) = Fin (4278419646001971 / 562949953421312)"
  using to_double_pos [of 2 "38 / 5" 8556839292003942]
  by (simp add: js_div_def pow2_def)

lemma add_95_tax: "js_add (Fin 95) (Fin (4278419646001971 / 562949953421312)) =
      Fin (3609916576314163 / 35184372088832)"
  using to_double_pos [of 6 "57758665221026611 / 562949953421312" 7219833152628326]
  by (simp add: js_add_def pow2_def)

lemma add_shipping: 
  "js_add (Fin (3609916576314163 / 35184372088832))
      (Fin (5623870034678907 / 562949953421312)) =
      Fin (7922816906963189 / 70368744177664)"
  using to_double_pos [of 6 "63382535255705515 / 562949953421312" 7922816906963189]
  by (simp add: js_add_def pow2_def)

lemma mul_total_100: "js_mul (Fin (7922816906963189 / 70368744177664)) (Fin 100) =
      Fin (6189700708564991 / 549755813888)"
  using to_double_pos [of 13 "198070422674079725 / 17592186044416" 6189700708564991]
  by (simp add: js_mul_def pow2_def)

lemma div_11259_100: "js_div (Fin 11259) (Fin 100) = Fin (3961408453481595 / 35184372088832)"
  using to_double_pos [of 6 "11259 / 100" 7922816906963190]
  by (simp add: js_div_def pow2_def)

lemma mul_shipping_100: "js_mul (Fin (5623870034678907 / 562949953421312)) (Fin 100) = Fin 999"
  using to_double_pos [of 9 "140596750866972675 / 140737488355328" 8787296929185792]
  by (simp add: js_mul_def pow2_def)

lemma div_999_100: "js_div (Fin 999) (Fin 100) = Fin (5623870034678907 / 562949953421312)"
  using to_double_pos [of 3 "999 / 100" 5623870034678907]
  by (simp add: js_div_def pow2_def)

lemma div_0_100: "js_div (Fin 0) (Fin 100) = Fin 0"
  by (simp add: js_div_def signed_zero_def)

lemma sub_1_0: "js_sub (Fin 1) (Fin 0) = Fin 1"
  using to_double_pos [of 0 1 4503599627370496]
  by (simp add: js_sub_def js_add_def pow2_def)

lemma add_0_50: "js_add (Fin 0) (Fin 50) = Fin 50"
  using to_double_pos [of 5 50 7036874417766400]
  by (simp add: js_add_def pow2_def)

lemma add_0_0: "js_add (Fin 0) (Fin 0) = Fin 0"
  by (simp add: js_add_def to_double_def)

lemma add_0_shipping:
  "js_add (Fin 0) (Fin (5623870034678907 / 562949953421312))
     = Fin (5623870034678907 / 562949953421312)"
  using to_double_pos [of 3 "5623870034678907 / 562949953421312" 5623870034678907]
  by (simp add: js_add_def pow2_def)

lemma mul_0_tax: "js_mul (Fin 0) (Fin (5764607523034235 / 72057594037927936)) = Fin 0"
  by (simp add: js_mul_def signed_zero_def)

lemma mul_0_100: "js_mul (Fin 0) (Fin 100) = Fin 0"
  by (simp add: js_mul_def signed_zero_def)

lemma Math_round_eq:
  assumes "of_int n \<le> a + 1 / 2" and "a + 1 / 2 < of_int n + 1"
  shows "Math_round (Fin a) = (if n = 0 then signed_zero (a < 0) else Fin (of_int n))"
proof -
  from assms have "\<lfloor>a + 1 / 2\<rfloor> = n"
    by (intro floor_unique)
  then show ?thesis
    by (simp add: Let_def)
qed

lemma round_0: "Math_round (Fin 0) = Fin 0"
  using Math_round_eq [of 0 0] by (simp add: signed_zero_def)

lemma round_760: "Math_round (Fin 760) = Fin 760"
  using Math_round_eq [of 760 760] by simp

lemma round_999: "Math_round (Fin 999) = Fin 999"
  using Math_round_eq [of 999 999] by simp

lemma round_11259: "Math_round (Fin (6189700708564991 / 549755813888)) = Fin 11259"
  using Math_round_eq [of 11259 "6189700708564991 / 549755813888"] by simp

lemma ge_0_100: "\<not> js_ge (Fin 0) (Fin 100)"
  by (simp add: js_ge_def)

lemma ge_95_100: "\<not> js_ge (Fin 95) (Fin 100)"
  by (simp add: js_ge_def)




































































text \<open>
  C6.  On the empty item sequence \<open>calculateOrderTotals\<close> returns subtotal \<open>0\<close>, tax \<open>0\<close>,
  and \<open>STANDARD_SHIPPING_COST\<close> (the number \<open>9.99\<close>) both as shipping and as total: \<open>0\<close> is
  below the free-shipping threshold.
\<close>

theorem C6_empty_order_totals:
  "calculateOrderTotals [] =
     \<lparr>subtotal = Fin 0, tax = Fin 0, shipping = STANDARD_SHIPPING_COST,
      total = STANDARD_SHIPPING_COST\<rparr>
   \<and> STANDARD_SHIPPING_COST = to_double (999 / 100)
   \<and> \<not> js_ge (Fin 0) FREE_SHIPPING_THRESHOLD"
  by (simp add: calculateOrderTotals_def Let_def FREE_SHIPPING_THRESHOLD_def TAX_RATE_value
      STANDARD_SHIPPING_COST_value lit_9_99 mul_0_tax mul_0_100 round_0 div_0_100 ge_0_100
      add_0_0 add_0_shipping mul_shipping_100 round_999 div_999_100
      del: Math_round.simps)

text \<open>
  C7.  On the items (unit price \<open>25\<close>, quantity \<open>2\<close>, discount \<open>0\<close>) and (unit price \<open>50\<close>,
  quantity \<open>1\<close>, discount \<open>10\<close>), \<open>calculateOrderTotals\<close> returns subtotal \<open>95\<close>, tax
  \<open>7.60\<close>, shipping \<open>9.99\<close> and total \<open>112.59\<close>, each decimal being the number that the
  literal denotes; the subtotal is below the threshold \<open>100\<close>.
\<close>

theorem C7_two_item_totals:
  "calculateOrderTotals [sample_item ''p1'' 2 25 0, sample_item ''p2'' 1 50 10] =
     \<lparr>subtotal = Fin 95, tax = to_double (760 / 100), shipping = to_double (999 / 100),
      total = to_double (11259 / 100)\<rparr>
   \<and> \<not> js_ge (Fin 95) FREE_SHIPPING_THRESHOLD"
  by (simp add: calculateOrderTotals_def Let_def sample_item_def FREE_SHIPPING_THRESHOLD_def
      TAX_RATE_value STANDARD_SHIPPING_COST_value lit_7_60 lit_9_99 lit_112_59
      mul_25_2 div_0_100 sub_1_0 mul_50_1 add_0_50 div_10_100 sub_1_tenth mul_50_ninetenths
      add_50_45 mul_95_tax mul_tax_100 round_760 div_760_100 ge_95_100 add_95_tax add_shipping
      mul_total_100 round_11259 div_11259_100
      del: Math_round.simps)

section \<open>Properties of order creation\<close>

lemma validate_items_Some:
  "validate_items its = Some e \<Longrightarrow>
     e = Error ''Item quantity must be positive'' \<or> e = Error ''Item price cannot be negative''"
  by (induction its) (auto split: if_splits)

lemma validate_items_None_iff:
  "validate_items its = None \<longleftrightarrow>
     (\<forall>item \<in> set its. \<not> js_le (quantity item) (Fin 0) \<and> \<not> js_lt (unitPrice item) (Fin 0))"
  by (induction its) auto

lemma isValidAddress_iff:
  "isValidAddress a \<longleftrightarrow>
     5 \<le> length (street a) \<and> 2 \<le> length (city a) \<and> 2 \<le> length (state a)
     \<and> 5 \<le> length (postalCode a) \<and> 2 \<le> length (country a)"
  by (auto simp: isValidAddress_def)

text \<open>
  C9.  \<open>createOrder\<close> returns an error, issues no request (so no totals are computed) and
  leaves the signals as they are whenever the item list is empty, some item has a
  quantity \<open><= 0\<close>, some item has a unit price \<open>< 0\<close>, or a field of the shipping address
  is shorter than its minimum length; otherwise it sets the loading signal, clears the
  error signal and posts the order with the totals of its items attached, the list of
  orders being as before.
\<close>

theorem C9_createOrder_validation:
  "(items dto = []
      \<or> (\<exists>item \<in> set (items dto). js_le (quantity item) (Fin 0))
      \<or> (\<exists>item \<in> set (items dto). js_lt (unitPrice item) (Fin 0))
      \<or> length (street (shippingAddress dto)) < 5 \<or> length (city (shippingAddress dto)) < 2
      \<or> length (state (shippingAddress dto)) < 2 \<or> length (postalCode (shippingAddress dto)) < 5
      \<or> length (country (shippingAddress dto)) < 2
    \<longrightarrow> (\<exists>msg. createOrder svc dto = (svc, Inl (Error msg))))
   \<and> (\<not> (items dto = []
      \<or> (\<exists>item \<in> set (items dto). js_le (quantity item) (Fin 0))
      \<or> (\<exists>item \<in> set (items dto). js_lt (unitPrice item) (Fin 0))
      \<or> length (street (shippingAddress dto)) < 5 \<or> length (city (shippingAddress dto)) < 2
      \<or> length (state (shippingAddress dto)) < 2 \<or> length (postalCode (shippingAddress dto)) < 5
      \<or> length (country (shippingAddress dto)) < 2)
    \<longrightarrow> createOrder svc dto =
          (svc\<lparr>loadingSignal := True, errorSignal := None\<rparr>,
           Inr (POST apiUrl (OrderData dto (calculateOrderTotals (items dto)))))
        \<and> ordersSignal (fst (createOrder svc dto)) = ordersSignal svc)"
proof (cases "validate_items (items dto)")
  case None
  then have ok: "\<forall>item \<in> set (items dto).
      \<not> js_le (quantity item) (Fin 0) \<and> \<not> js_lt (unitPrice item) (Fin 0)"
    by (simp add: validate_items_None_iff)
  show ?thesis
  proof (cases "items dto = [] \<or> \<not> isValidAddress (shippingAddress dto)")
    case True
    then have "\<exists>msg. createOrder svc dto = (svc, Inl (Error msg))"
      by (auto simp: createOrder_def None)
    with True show ?thesis
      by (auto simp: isValidAddress_iff)
  next
    case False
    with None have "createOrder svc dto =
        (svc\<lparr>loadingSignal := True, errorSignal := None\<rparr>,
         Inr (POST apiUrl (OrderData dto (calculateOrderTotals (items dto)))))"
      by (simp add: createOrder_def)
    with False ok show ?thesis
      by (auto simp: isValidAddress_iff)
  qed
next
  case (Some e)
  from validate_items_Some [OF Some] obtain msg where e: "e = Error msg"
    by auto
  from Some have "\<exists>msg. createOrder svc dto = (svc, Inl (Error msg))"
    by (simp add: createOrder_def e)
  moreover from Some have "\<exists>item \<in> set (items dto).
      js_le (quantity item) (Fin 0) \<or> js_lt (unitPrice item) (Fin 0)"
    using validate_items_None_iff [of "items dto"] by auto
  ultimately show ?thesis
    by auto
qed

theorem C9_createOrder_validation_witness:
  "(\<exists>msg. createOrder (service_with [])
       (sample_dto [sample_item ''p1'' 2 25 0, sample_item ''p2'' 0 50 10] sample_address)
     = (service_with [], Inl (Error msg)))
   \<and> createOrder (service_with [])
       (sample_dto [sample_item ''p1'' 2 25 0, sample_item ''p2'' 0 50 10] sample_address)
     = (service_with [], Inl (Error ''Item quantity must be positive''))
   \<and> createOrder (service_with [])
       (sample_dto [sample_item ''p1'' 2 25 0, sample_item ''p2'' 1 50 10] sample_address)
     = ((service_with [])\<lparr>loadingSignal := True, errorSignal := None\<rparr>,
        Inr (POST ''/api/orders''
              (OrderData
                (sample_dto [sample_item ''p1'' 2 25 0, sample_item ''p2'' 1 50 10] sample_address)
                (calculateOrderTotals [sample_item ''p1'' 2 25 0, sample_item ''p2'' 1 50 10]))))"
proof -
  let ?bad = "sample_dto [sample_item ''p1'' 2 25 0, sample_item ''p2'' 0 50 10] sample_address"
  let ?good = "sample_dto [sample_item ''p1'' 2 25 0, sample_item ''p2'' 1 50 10] sample_address"
  have bad: "\<exists>item \<in> set (items ?bad). js_le (quantity item) (Fin 0)"
    by (simp add: sample_dto_def sample_item_def js_le_def)
  have good: "\<not> (items ?good = []
      \<or> (\<exists>item \<in> set (items ?good). js_le (quantity item) (Fin 0))
      \<or> (\<exists>item \<in> set (items ?good). js_lt (unitPrice item) (Fin 0))
      \<or> length (street (shippingAddress ?good)) < 5 \<or> length (city (shippingAddress ?good)) < 2
      \<or> length (state (shippingAddress ?good)) < 2
      \<or> length (postalCode (shippingAddress ?good)) < 5
      \<or> length (country (shippingAddress ?good)) < 2)"
    by (simp add: sample_dto_def sample_item_def sample_address_def js_le_def js_lt_def)
  from C9_createOrder_validation [of ?bad "service_with []"] bad
  have "\<exists>msg. createOrder (service_with []) ?bad = (service_with [], Inl (Error msg))"
    by blast
  moreover have "createOrder (service_with []) ?bad
          = (service_with [], Inl (Error ''Item quantity must be positive''))"
    by (simp add: createOrder_def sample_dto_def sample_item_def js_le_def js_lt_def)
  moreover from C9_createOrder_validation [of ?good "service_with []"] good
  have "createOrder (service_with []) ?good =
          ((service_with [])\<lparr>loadingSignal := True, errorSignal := None\<rparr>,
           Inr (POST apiUrl (OrderData ?good (calculateOrderTotals (items ?good)))))"
    by blast
  ultimately show ?thesis
    by (simp add: apiUrl_def sample_dto_def)
qed

section \<open>Properties of the status machine\<close>

lemma array_includes_iff: "array_includes xs x \<longleftrightarrow> x \<in> set xs"
  by (simp add: array_includes_def)

lemma table_matches_spec: "set (ORDER_STATUS_TRANSITIONS s) = spec_allowed_next s"
  by (cases s) auto

lemma status_str_inj: "status_str a = status_str b \<longleftrightarrow> a = b"
  by (cases a; cases b) simp_all

lemma status_str_prefix_inj:
  "status_str a @ CHR '' '' # u = status_str b @ CHR '' '' # v \<longleftrightarrow> a = b \<and> u = v"
  by (cases a; cases b) simp_all

lemma InvalidTransition_inj:
  "InvalidTransition c t = InvalidTransition c' t' \<longleftrightarrow> c = c' \<and> t = t'"
proof -
  have "status_str c @ '' to '' @ status_str t = status_str c' @ '' to '' @ status_str t'
          \<longleftrightarrow> c = c' \<and> t = t'"
    using status_str_prefix_inj [of c "''to '' @ status_str t" c' "''to '' @ status_str t'"]
    by (simp add: status_str_inj)
  then show ?thesis
    by (simp add: InvalidTransition_def)
qed

lemma canTransition_iff: "canTransition s t \<longleftrightarrow> t \<in> spec_allowed_next s"
  by (simp add: canTransition_def array_includes_iff table_matches_spec)

lemma updateOrderStatus_transition:
  "updateOrderStatus svc orderId newStatus =
     (case find (\<lambda>x. order_id x = orderId) (ordersSignal svc) of
        Some currentOrder \<Rightarrow>
          (case transition (status currentOrder) newStatus of
             Inl e \<Rightarrow> (svc, Inl e)
           | Inr s \<Rightarrow> (svc, Inr (PATCH (apiUrl @ ''/'' @ orderId @ ''/status'') (StatusBody s))))
      | None \<Rightarrow>
          (svc, Inr (PATCH (apiUrl @ ''/'' @ orderId @ ''/status'') (StatusBody newStatus))))"
  by (simp add: updateOrderStatus_def transition_def canTransition_def InvalidTransition_def
      split: option.splits)

lemma never_to_draft: "canTransition s t \<Longrightarrow> t \<noteq> draft"
  by (cases s) (auto simp: canTransition_iff)

lemma allowed_path_no_draft: "allowed_path (s # path) \<Longrightarrow> draft \<notin> set path"
proof (induction path arbitrary: s)
  case Nil
  then show ?case by simp
next
  case (Cons t rest)
  from Cons.prems have step: "canTransition s t" and tail: "allowed_path (t # rest)"
    by simp_all
  from step have "t \<noteq> draft" by (rule never_to_draft)
  moreover from tail have "draft \<notin> set rest" by (rule Cons.IH)
  ultimately show ?case by simp
qed

text \<open>
  C1.  For every pair of statuses, \<open>canTransition current target\<close> holds exactly when
  \<open>target\<close> is in the allowed-next set of \<open>current\<close> in the table of the specification,
  which is the set of entries of \<open>ORDER_STATUS_TRANSITIONS\<close>; \<open>transition\<close> returns
  \<open>target\<close> in that case and otherwise fails with the \<open>InvalidTransition\<close> error of
  \<open>current\<close> and \<open>target\<close>, whose message determines both statuses.  On an order of
  the local list \<open>updateOrderStatus\<close> is \<open>transition\<close> from the status of that order.
\<close>

theorem C1_canTransition_transition:
  "canTransition current target = (target \<in> spec_allowed_next current)
   \<and> spec_allowed_next current = set (ORDER_STATUS_TRANSITIONS current)
   \<and> transition current target =
       (if target \<in> spec_allowed_next current then Inr target
        else Inl (InvalidTransition current target))
   \<and> (InvalidTransition current target = InvalidTransition c' t') = (current = c' \<and> target = t')
   \<and> updateOrderStatus svc orderId target =
       (case find (\<lambda>x. order_id x = orderId) (ordersSignal svc) of
          Some currentOrder \<Rightarrow>
            (case transition (status currentOrder) target of
               Inl e \<Rightarrow> (svc, Inl e)
             | Inr s \<Rightarrow> (svc, Inr (PATCH (apiUrl @ ''/'' @ orderId @ ''/status'') (StatusBody s))))
        | None \<Rightarrow>
            (svc, Inr (PATCH (apiUrl @ ''/'' @ orderId @ ''/status'') (StatusBody target))))"
  using updateOrderStatus_transition [of svc orderId target]
  by (simp add: canTransition_iff transition_def table_matches_spec InvalidTransition_inj)

theorem C1_canTransition_transition_witness:
  "canTransition shipped delivered \<and> \<not> canTransition shipped cancelled
   \<and> transition shipped delivered = Inr delivered
   \<and> transition shipped cancelled = Inl (Error ''Cannot transition from shipped to cancelled'')"
  using C1_canTransition_transition [of shipped delivered shipped delivered "service_with []" "[]"]
        C1_canTransition_transition [of shipped cancelled shipped cancelled "service_with []" "[]"]
  by (simp add: InvalidTransition_def)

text \<open>
  C3 as stated: cancelling a shipped order fails with the \<open>InvalidTransition\<close> error of
  the table check.  It does not: \<open>cancelOrder\<close> fails earlier, with an error of its own.
\<close>

theorem C3_cancel_shipped_counterexample:
  "cancelOrder (service_with [sample_order ''order-1'' shipped]) ''order-1''
     = (service_with [sample_order ''order-1'' shipped],
        Inl (Error ''Cannot cancel order in shipped status''))
   \<and> cancelOrder (service_with [sample_order ''order-1'' shipped]) ''order-1''
     \<noteq> (service_with [sample_order ''order-1'' shipped],
        Inl (InvalidTransition shipped cancelled))"
  by (simp add: cancelOrder_def service_with_def sample_order_def InvalidTransition_def)

text \<open>
  C3, amended.  When the order found under the given id is shipped or delivered,
  \<open>cancelOrder\<close> fails in a check of its own, made before the table is consulted, with
  the error \<open>Cannot cancel order in <status> status\<close>, which is not the
  \<open>InvalidTransition\<close> error; the table disallows the step as well, so the same request
  made through \<open>updateOrderStatus\<close> fails with \<open>InvalidTransition\<close>.
\<close>

theorem C3_cancel_special_case:
  assumes "find (\<lambda>x. order_id x = orderId) (ordersSignal svc) = Some ord"
    and "status ord = shipped \<or> status ord = delivered"
  shows "cancelOrder svc orderId =
           (svc, Inl (Error (''Cannot cancel order in '' @ status_str (status ord) @ '' status'')))
         \<and> cancelOrder svc orderId \<noteq> (svc, Inl (InvalidTransition (status ord) cancelled))
         \<and> \<not> canTransition (status ord) cancelled
         \<and> updateOrderStatus svc orderId cancelled =
             (svc, Inl (InvalidTransition (status ord) cancelled))"
  using assms
  by (auto simp: cancelOrder_def updateOrderStatus_def InvalidTransition_def
      canTransition_def array_includes_def)

theorem C3_cancel_special_case_witness:
  "find (\<lambda>x. order_id x = ''order-2'')
     (ordersSignal (service_with [sample_order ''order-2'' delivered]))
     = Some (sample_order ''order-2'' delivered)
   \<and> cancelOrder (service_with [sample_order ''order-2'' delivered]) ''order-2''
     = (service_with [sample_order ''order-2'' delivered],
        Inl (Error ''Cannot cancel order in delivered status''))
   \<and> updateOrderStatus (service_with [sample_order ''order-2'' delivered]) ''order-2'' cancelled
     = (service_with [sample_order ''order-2'' delivered],
        Inl (Error ''Cannot transition from delivered to cancelled''))"
proof -
  have h1: "find (\<lambda>x. order_id x = ''order-2'')
              (ordersSignal (service_with [sample_order ''order-2'' delivered]))
            = Some (sample_order ''order-2'' delivered)"
    by (simp add: service_with_def sample_order_def)
  have h2: "status (sample_order ''order-2'' delivered) = shipped
            \<or> status (sample_order ''order-2'' delivered) = delivered"
    by (simp add: sample_order_def)
  have s: "status_str (status (sample_order ''order-2'' delivered)) = ''delivered''"
    "status (sample_order ''order-2'' delivered) = delivered"
    by (simp_all add: sample_order_def)
  from C3_cancel_special_case [OF h1 h2] h1 show ?thesis
    by (simp add: s InvalidTransition_def)
qed

text \<open>
  C4.  \<open>cancelled\<close> and \<open>refunded\<close> are terminal: their entries in the table are empty,
  \<open>canTransition\<close> from them is false for every target and \<open>transition\<close> from them
  fails; \<open>transition delivered refunded\<close> succeeds with \<open>refunded\<close>, from where every
  further transition fails.
\<close>

theorem C4_terminal_states:
  "ORDER_STATUS_TRANSITIONS cancelled = [] \<and> ORDER_STATUS_TRANSITIONS refunded = []
   \<and> \<not> canTransition cancelled target \<and> \<not> canTransition refunded target
   \<and> transition cancelled target = Inl (InvalidTransition cancelled target)
   \<and> transition refunded target = Inl (InvalidTransition refunded target)
   \<and> transition delivered refunded = Inr refunded"
  by (simp add: transition_def canTransition_def array_includes_def)

text \<open>
  C5.  No entry of the table contains \<open>draft\<close>, so a path of allowed transitions that
  starts in \<open>draft\<close> never visits \<open>draft\<close> again.
\<close>

theorem C5_no_return_to_draft:
  assumes "allowed_path (draft # path)"
  shows "draft \<notin> set path \<and> draft \<notin> set (ORDER_STATUS_TRANSITIONS s)"
proof
  from assms show "draft \<notin> set path" by (rule allowed_path_no_draft)
  show "draft \<notin> set (ORDER_STATUS_TRANSITIONS s)" by (cases s) simp_all
qed

theorem C5_no_return_to_draft_witness:
  "allowed_path [draft, pending, confirmed, processing, shipped, delivered, refunded]
   \<and> draft \<notin> set [pending, confirmed, processing, shipped, delivered, refunded]"
proof -
  have h: "allowed_path (draft # [pending, confirmed, processing, shipped, delivered, refunded])"
    by (simp add: canTransition_def array_includes_def)
  from C5_no_return_to_draft [OF h] h show ?thesis by simp
qed

text \<open>
  C8.  When no order of the local list has the given id, \<open>updateOrderStatus\<close> makes no
  check against the table: for every requested status it raises no error, leaves the
  signals as they are and issues the PATCH request for that status.
\<close>

theorem C8_unknown_order_unchecked:
  assumes "orderId \<notin> order_id ` set (ordersSignal svc)"
  shows "updateOrderStatus svc orderId newStatus =
           (svc, Inr (PATCH (apiUrl @ ''/'' @ orderId @ ''/status'') (StatusBody newStatus)))"
proof -
  from assms have "find (\<lambda>x. order_id x = orderId) (ordersSignal svc) = None"
    by (auto simp: find_None_iff)
  then show ?thesis by (simp add: updateOrderStatus_def)
qed

theorem C8_unknown_order_unchecked_witness:
  "''order-789'' \<notin> order_id ` set (ordersSignal (service_with [sample_order ''order-1'' refunded]))
   \<and> updateOrderStatus (service_with [sample_order ''order-1'' refunded]) ''order-789'' draft =
       (service_with [sample_order ''order-1'' refunded],
        Inr (PATCH ''/api/orders/order-789/status'' (StatusBody draft)))"
proof -
  have h: "''order-789'' \<notin> order_id ` set (ordersSignal (service_with [sample_order ''order-1'' refunded]))"
    by (simp add: service_with_def sample_order_def)
  from C8_unknown_order_unchecked [OF h, of draft] h show ?thesis
    by (simp add: apiUrl_def)
qed

text \<open>
  C10.  \<open>updateOrder\<close> goes through only for a draft: when the order that the local list
  holds under the given id has any other status, \<open>updateOrder\<close> fails with an error, no
  request is issued and the signals are as before.
\<close>

theorem C10_updateOrder_draft_only:
  assumes "find (\<lambda>x. order_id x = orderId) (ordersSignal svc) = Some currentOrder"
    and "status currentOrder \<noteq> draft"
  shows "updateOrder svc orderId dto = (svc, Inl (Error ''Can only update orders in draft status''))"
  using assms by (simp add: updateOrder_def)

theorem C10_updateOrder_draft_only_witness:
  "find (\<lambda>x. order_id x = ''order-1'') (ordersSignal (service_with [sample_order ''order-1'' pending]))
     = Some (sample_order ''order-1'' pending)
   \<and> status (sample_order ''order-1'' pending) \<noteq> draft
   \<and> updateOrder (service_with [sample_order ''order-1'' pending]) ''order-1''
         \<lparr>upd_items = None, upd_shippingAddress = None, upd_billingAddress = None,
          upd_notes = Some ''leave at door''\<rparr>
       = (service_with [sample_order ''order-1'' pending],
          Inl (Error ''Can only update orders in draft status''))"
proof -
  have h1: "find (\<lambda>x. order_id x = ''order-1'')
              (ordersSignal (service_with [sample_order ''order-1'' pending]))
            = Some (sample_order ''order-1'' pending)"
    by (simp add: service_with_def sample_order_def)
  have h2: "status (sample_order ''order-1'' pending) \<noteq> draft"
    by (simp add: sample_order_def)
  from C10_updateOrder_draft_only [OF h1 h2] h1 h2 show ?thesis by simp
qed

end
